theory Spec2Isabelle
  imports Main "HOL-Library.Sublist"
begin

section \<open>JavaScript values as the proxy handles them\<close>

text \<open>
  The proxy (\<^verbatim>\<open>server.js\<close>) receives path parameters (strings, read from the object
  \<^verbatim>\<open>req.params\<close>) and fields of a parsed JSON body (any JSON value, or
  \<^verbatim>\<open>undefined\<close> when the field is absent).
  JSON numbers are modelled as integers: no handler computes with a number, it only
  tests one for truthiness or interpolates it into a template literal.
\<close>

datatype jsval =
    JUndefined
  | JNull
  | JBool bool
  | JNum int
  | JStr string
  | JArr "jsval list"
  | JObj "(string \<times> jsval) list"

abbreviation NL :: string where "NL \<equiv> [CHR 0x0A]"
abbreviation SQ :: string where "SQ \<equiv> [CHR 0x27]"
abbreviation DQ :: string where "DQ \<equiv> [CHR 0x22]"

text \<open>\<^verbatim>\<open>!v\<close> is \<open>\<not> truthy v\<close>: the falsy values are \<^verbatim>\<open>undefined\<close>, \<^verbatim>\<open>null\<close>,
  \<^verbatim>\<open>false\<close>, \<^verbatim>\<open>0\<close> and the empty string.\<close>

fun truthy :: "jsval \<Rightarrow> bool" where
  "truthy JUndefined = False"
| "truthy JNull = False"
| "truthy (JBool b) = b"
| "truthy (JNum n) = (n \<noteq> 0)"
| "truthy (JStr s) = (s \<noteq> [])"
| "truthy (JArr xs) = True"
| "truthy (JObj kvs) = True"

text \<open>\<^verbatim>\<open>a || b\<close>: the left operand when it is truthy, else the right one.\<close>

definition js_or :: "jsval \<Rightarrow> jsval \<Rightarrow> jsval" where
  "js_or a b = (if truthy a then a else b)"

text \<open>\<^verbatim>\<open>Array.prototype.join\<close> on strings.\<close>

fun join :: "string \<Rightarrow> string list \<Rightarrow> string" where
  "join sep [] = []"
| "join sep [x] = x"
| "join sep (x # y # ys) = x @ sep @ join sep (y # ys)"

definition digit_char :: "nat \<Rightarrow> char" where
  "digit_char d = char_of (48 + d)"

function nat_to_string :: "nat \<Rightarrow> string" where
  "nat_to_string n =
     (if n < 10 then [digit_char n] else nat_to_string (n div 10) @ [digit_char (n mod 10)])"
  by pat_completeness auto
termination
  by (relation "measure id") auto

definition int_to_string :: "int \<Rightarrow> string" where
  "int_to_string i = (if i < 0 then ''-'' @ nat_to_string (nat (- i)) else nat_to_string (nat i))"

text \<open>What a template literal \<^verbatim>\<open>${v}\<close> inserts for a value: a string itself, unchanged;
  an array its elements joined by commas (\<^verbatim>\<open>null\<close> and \<^verbatim>\<open>undefined\<close> elements as
  the empty string); a plain object the fixed text \<^verbatim>\<open>[object Object]\<close>.\<close>

fun ToString :: "jsval \<Rightarrow> string" where
  "ToString JUndefined = ''undefined''"
| "ToString JNull = ''null''"
| "ToString (JBool b) = (if b then ''true'' else ''false'')"
| "ToString (JNum n) = int_to_string n"
| "ToString (JStr s) = s"
| "ToString (JArr xs) =
     join '','' (map (\<lambda>x. if x = JUndefined \<or> x = JNull then [] else ToString x) xs)"
| "ToString (JObj kvs) = ''[object Object]''"

text \<open>The field \<open>k\<close> of an object given by its list of fields: \<^verbatim>\<open>undefined\<close> where
  there is none.\<close>

definition obj_field :: "(string \<times> jsval) list \<Rightarrow> string \<Rightarrow> jsval" where
  "obj_field kvs k = (case map_of kvs k of None \<Rightarrow> JUndefined | Some v \<Rightarrow> v)"

text \<open>Property read \<^verbatim>\<open>v.k\<close> (and destructuring \<^verbatim>\<open>const { k } = v\<close>): a TypeError on
  \<^verbatim>\<open>undefined\<close> and \<^verbatim>\<open>null\<close>, the field of an object, \<^verbatim>\<open>undefined\<close> on the
  other values for the names read here.\<close>

datatype js_error = ReferenceError string | TypeError string

fun get_prop :: "jsval \<Rightarrow> string \<Rightarrow> js_error + jsval" where
  "get_prop JUndefined k = Inl (TypeError k)"
| "get_prop JNull k = Inl (TypeError k)"
| "get_prop (JObj kvs) k = Inr (obj_field kvs k)"
| "get_prop v k = Inr JUndefined"

text \<open>Reading an identifier: its value when a binding of that name is in scope,
  a ReferenceError otherwise.\<close>

definition lookup_identifier :: "(string \<times> jsval) list \<Rightarrow> string \<Rightarrow> js_error + jsval" where
  "lookup_identifier scope name =
     (case map_of scope name of None \<Rightarrow> Inl (ReferenceError name) | Some v \<Rightarrow> Inr v)"

section \<open>Collaborators, responses and what a handler does\<close>

text \<open>
  The CRM connection \<^verbatim>\<open>conn\<close> and the language model \<^verbatim>\<open>model\<close> are external. Each of
  their operations is a function from its argument to either the message of the error it
  rejects with (\<open>Inl\<close>) or the part of its result the handler reads (\<open>Inr\<close>):
  \<^verbatim>\<open>result.records\<close> for a query, \<^verbatim>\<open>soslResult.searchRecords\<close> for a search
  (\<open>None\<close> when that field is missing), \<^verbatim>\<open>response.text()\<close> for a completion.
  A search record is a JSON object, kept as its list of fields.
\<close>

type_synonym article = "(string \<times> jsval) list"

record upstream =
  knowledge_getDataCategoryGroups :: "string list \<Rightarrow> string + jsval list"
  knowledge_getCategoryTree :: "jsval \<Rightarrow> nat \<Rightarrow> string + jsval"
  conn_query :: "string \<Rightarrow> string + jsval"
  conn_search :: "string \<Rightarrow> string + article list option"
  sobject_create :: "string \<Rightarrow> jsval \<Rightarrow> string + jsval"
  model_generateContent :: "string \<Rightarrow> string + string"

text \<open>\<^verbatim>\<open>conn.accessToken\<close> is set by a successful login and \<^verbatim>\<open>undefined\<close> before.\<close>

record connection =
  accessToken :: jsval

datatype upstream_call =
    GetDataCategoryGroups "string list"
  | GetCategoryTree jsval nat
  | Query string
  | Search string
  | Create string jsval
  | GenerateContent string

datatype body = Json jsval | Text string

text \<open>A handler either sends one response (status and body) or lets an error escape
  without having sent any; \<open>Unwritten\<close> stands where the source text of a handler breaks
  off. The outcome is returned with the upstream calls made, in order.\<close>

datatype outcome = Responded nat body | Escaped js_error | Unwritten

type_synonym result = "outcome \<times> upstream_call list"

definition error_body :: "string \<Rightarrow> body" where
  "error_body msg = Json (JObj [(''error'', JStr msg)])"

section \<open>The two handlers registered for GET /api/cases/:email\<close>

definition cases_soql_first :: "string \<Rightarrow> string" where
  "cases_soql_first email =
     NL @ ''      SELECT Id, CaseNumber, Subject, Description, Status, CreatedDate '' @
     NL @ ''      FROM Case '' @
     NL @ ''      WHERE Contact.Email = '' @ SQ @ email @ SQ @ '' AND Status != 'Closed'' @ SQ @
     NL @ ''      ORDER BY CreatedDate DESC'' @
     NL @ ''    ''"

text \<open>The bindings the first handler declares that hold data: \<^verbatim>\<open>email\<close> and
  \<^verbatim>\<open>soql\<close>. Its other names in scope are \<^verbatim>\<open>req\<close>, \<^verbatim>\<open>res\<close>, \<^verbatim>\<open>err\<close> and the
  module's constants; none is called \<^verbatim>\<open>urlName\<close>.\<close>

definition cases_first_scope :: "jsval \<Rightarrow> string \<Rightarrow> (string \<times> jsval) list" where
  "cases_first_scope email soql = [(''email'', email), (''soql'', JStr soql)]"

text \<open>First definition. Its \<^verbatim>\<open>catch\<close> block reads the identifier \<^verbatim>\<open>urlName\<close>
  before it sends anything.\<close>

definition cases_by_email_first :: "connection \<Rightarrow> upstream \<Rightarrow> jsval \<Rightarrow> result" where
  "cases_by_email_first conn up email =
     (if \<not> truthy (accessToken conn)
      then (Responded 401 (error_body ''Salesforce not connected''), [])
      else
        let soql = cases_soql_first (ToString email) in
        (case conn_query up soql of
           Inr records \<Rightarrow> (Responded 200 (Json records), [Query soql])
         | Inl msg \<Rightarrow>
             (case lookup_identifier (cases_first_scope email soql) ''urlName'' of
                Inl e \<Rightarrow> (Escaped e, [Query soql])
              | Inr urlName \<Rightarrow>
                  (Responded 500 (error_body (''Failed to fetch article '' @ ToString urlName)),
                   [Query soql]))))"

definition cases_soql_second :: "string \<Rightarrow> string" where
  "cases_soql_second email =
     NL @ ''      SELECT Id, CaseNumber, Subject, Status, CreatedDate, Description '' @
     NL @ ''      FROM Case '' @
     NL @ ''      WHERE ContactEmail = '' @ SQ @ email @ SQ @ '' AND IsClosed = false'' @
     NL @ ''      ORDER BY CreatedDate DESC'' @
     NL @ ''    ''"

text \<open>Second definition.\<close>

definition cases_by_email_second :: "connection \<Rightarrow> upstream \<Rightarrow> jsval \<Rightarrow> result" where
  "cases_by_email_second conn up email =
     (if \<not> truthy email
      then (Responded 400 (error_body ''Email parameter is required.''), [])
      else
        let query = cases_soql_second (ToString email) in
        (case conn_query up query of
           Inr records \<Rightarrow> (Responded 200 (Json records), [Query query])
         | Inl msg \<Rightarrow>
             (Responded 500 (error_body (''Failed to fetch cases for email '' @ ToString email)),
              [Query query])))"

section \<open>The other handlers\<close>

definition healthcheck :: result where
  "healthcheck = (Responded 200 (Text ''OK''), [])"

text \<open>GET /api/knowledge/categories. An empty group list makes \<^verbatim>\<open>categoryGroup\<close>
  \<^verbatim>\<open>undefined\<close>, and reading its \<^verbatim>\<open>name\<close> throws inside the \<^verbatim>\<open>try\<close>.\<close>

definition knowledge_categories :: "upstream \<Rightarrow> result" where
  "knowledge_categories up =
     (let failed = Responded 500 (error_body ''Failed to fetch knowledge categories'');
          c1 = GetDataCategoryGroups [''Knowledge''] in
      case knowledge_getDataCategoryGroups up [''Knowledge''] of
        Inl msg \<Rightarrow> (failed, [c1])
      | Inr dataCategoryGroups \<Rightarrow>
          (case get_prop (case dataCategoryGroups of [] \<Rightarrow> JUndefined | g # _ \<Rightarrow> g) ''name'' of
             Inl e \<Rightarrow> (failed, [c1])
           | Inr name \<Rightarrow>
               (case knowledge_getCategoryTree up name 4 of
                  Inl msg \<Rightarrow> (failed, [c1, GetCategoryTree name 4])
                | Inr tree \<Rightarrow> (Responded 200 (Json tree), [c1, GetCategoryTree name 4]))))"

definition articles_query :: "string \<Rightarrow> string" where
  "articles_query categoryName =
     NL @ ''      SELECT Id, Title, UrlName, Summary '' @
     NL @ ''      FROM Knowledge__kav '' @
     NL @ ''      WHERE PublishStatus='Online' AND Language='en_US' '' @
     NL @ ''      AND DataCategorySelections.Knowledge.at('' @ SQ @ categoryName @ SQ @ '')'' @
     NL @ ''      ORDER BY LastPublishedDate DESC'' @
     NL @ ''      LIMIT 20'' @
     NL @ ''    ''"

text \<open>GET /api/knowledge/articles/:categoryName. The source text of this handler stops
  after the success response: its \<^verbatim>\<open>try\<close> has no \<^verbatim>\<open>catch\<close> written.\<close>

definition knowledge_articles :: "upstream \<Rightarrow> jsval \<Rightarrow> result" where
  "knowledge_articles up categoryName =
     (let query = articles_query (ToString categoryName) in
      case conn_query up query of
        Inr records \<Rightarrow> (Responded 200 (Json records), [Query query])
      | Inl msg \<Rightarrow> (Unwritten, [Query query]))"

text \<open>POST /api/cases/:caseId/reply.\<close>

definition case_comment :: "jsval \<Rightarrow> jsval \<Rightarrow> jsval \<Rightarrow> jsval" where
  "case_comment caseId commentBody isPublic =
     JObj [(''ParentId'', caseId), (''CommentBody'', commentBody),
           (''IsPublished'', js_or isPublic (JBool False))]"

definition case_reply :: "upstream \<Rightarrow> jsval \<Rightarrow> jsval \<Rightarrow> result" where
  "case_reply up caseId reqBody =
     (case get_prop reqBody ''commentBody'' of
        Inl e \<Rightarrow> (Escaped e, [])
      | Inr commentBody \<Rightarrow>
     (case get_prop reqBody ''isPublic'' of
        Inl e \<Rightarrow> (Escaped e, [])
      | Inr isPublic \<Rightarrow>
          if \<not> truthy commentBody
          then (Responded 400 (error_body ''commentBody is required.''), [])
          else
            let record = case_comment caseId commentBody isPublic in
            (case sobject_create up ''CaseComment'' record of
               Inr created \<Rightarrow> (Responded 201 (Json created), [Create ''CaseComment'' record])
             | Inl msg \<Rightarrow>
                 (Responded 500 (error_body ''Failed to post reply''),
                  [Create ''CaseComment'' record]))))"

text \<open>POST /api/search.\<close>

definition sosl_query :: "string \<Rightarrow> string" where
  "sosl_query searchTerm =
     NL @ ''          FIND {*'' @ searchTerm @ ''*} IN ALL FIELDS '' @
     NL @ ''          RETURNING Knowledge__kav(Id, Title, Summary, UrlName WHERE PublishStatus='Online' AND Language='en_US' LIMIT 10)'' @
     NL @ ''        ''"

definition article_text :: "article \<Rightarrow> string" where
  "article_text art =
     ''Title: '' @ ToString (obj_field art ''Title'') @ NL @
     ''Summary: '' @ ToString (obj_field art ''Summary'')"

definition search_context :: "article list \<Rightarrow> string" where
  "search_context articles = join (NL @ NL @ ''---'' @ NL @ NL) (map article_text articles)"

definition search_prompt :: "string \<Rightarrow> string \<Rightarrow> string" where
  "search_prompt context searchTerm =
     NL @ ''            Based on the following knowledge base articles, please answer the user's question. '' @
     NL @ ''            Provide a concise, helpful answer and cite the titles of the articles you used.'' @
     NL @ ''            If the articles don't contain the answer, say that you couldn't find an answer in the knowledge base.'' @
     NL @
     NL @ ''            ARTICLES:'' @
     NL @ ''            ---'' @
     NL @ ''            '' @ context @
     NL @ ''            ---'' @
     NL @
     NL @ ''            USER QUESTION: '' @ DQ @ searchTerm @ DQ @
     NL @
     NL @ ''            ANSWER:'' @
     NL @ ''        ''"

definition no_articles_answer :: body where
  "no_articles_answer =
     Json (JObj [(''answer'', JStr ''I couldn't find any articles related to your search.''),
                 (''sources'', JArr [])])"

definition search :: "upstream \<Rightarrow> jsval \<Rightarrow> result" where
  "search up reqBody =
     (case get_prop reqBody ''searchTerm'' of
        Inl e \<Rightarrow> (Escaped e, [])
      | Inr searchTerm \<Rightarrow>
          if \<not> truthy searchTerm
          then (Responded 400 (error_body ''searchTerm is required.''), [])
          else
            let failed = Responded 500 (error_body ''Failed to perform search'');
                soslQuery = sosl_query (ToString searchTerm) in
            (case conn_search up soslQuery of
               Inl msg \<Rightarrow> (failed, [Search soslQuery])
             | Inr None \<Rightarrow> (Responded 200 no_articles_answer, [Search soslQuery])
             | Inr (Some articles) \<Rightarrow>
                 if length articles = 0
                 then (Responded 200 no_articles_answer, [Search soslQuery])
                 else
                   let context = search_context articles;
                       prompt = search_prompt context (ToString searchTerm) in
                   (case model_generateContent up prompt of
                      Inl msg \<Rightarrow> (failed, [Search soslQuery, GenerateContent prompt])
                    | Inr text \<Rightarrow>
                        (Responded 200
                           (Json (JObj [(''answer'', JStr text),
                                        (''sources'', JArr (map JObj articles))])),
                         [Search soslQuery, GenerateContent prompt]))))"

section \<open>The CORS origin callback\<close>

definition allowedOrigins :: "string list" where
  "allowedOrigins = [''http://localhost:3000'']"

text \<open>\<^verbatim>\<open>s.includes(t)\<close>: \<open>t\<close> occurs in \<open>s\<close> as a run of consecutive characters.\<close>

definition str_includes :: "string \<Rightarrow> string \<Rightarrow> bool" where
  "str_includes s t = sublist t s"

text \<open>\<^verbatim>\<open>xs.indexOf(x)\<close>: the first position of \<open>x\<close>, or \<open>-1\<close>.\<close>

fun indexOf_from :: "int \<Rightarrow> 'a list \<Rightarrow> 'a \<Rightarrow> int" where
  "indexOf_from i [] x = - 1"
| "indexOf_from i (y # ys) x = (if y = x then i else indexOf_from (i + 1) ys x)"

definition indexOf :: "'a list \<Rightarrow> 'a \<Rightarrow> int" where
  "indexOf xs x = indexOf_from 0 xs x"

definition cors_message :: string where
  "cors_message = ''The CORS policy for this site does not allow access from the specified Origin.''"

text \<open>The callback receives the Origin header, \<open>None\<close> when the request has none
  (\<^verbatim>\<open>undefined\<close>). It answers \<^verbatim>\<open>callback(null, true)\<close> (\<open>Inr True\<close>) or
  \<^verbatim>\<open>callback(new Error(msg), false)\<close> (\<open>Inl msg\<close>). \<^verbatim>\<open>!origin\<close> holds for a missing
  header and for the empty string.\<close>

definition cors_origin :: "string option \<Rightarrow> string + bool" where
  "cors_origin header =
     (case header of
        None \<Rightarrow> Inr True
      | Some origin \<Rightarrow>
          if origin = [] then Inr True
          else if str_includes origin ''vercel.app'' then Inr True
          else if indexOf allowedOrigins origin = - 1 then Inl cors_message
          else Inr True)"

section \<open>Routes and the middleware chain\<close>

text \<open>
  A path is its list of segments. A route pattern is a list of literal segments and
  named parameters; a parameter takes one non-empty segment. The table lists the
  \<^verbatim>\<open>app.get\<close> and \<^verbatim>\<open>app.post\<close> registrations of the source in their order; the
  first matching one handles the request, since no handler passes control on. The
  registrations that follow the break in the articles handler are read as registrations
  of the module, like the ones before it. The body of a request is taken as
  \<^verbatim>\<open>express.json()\<close> left it in \<^verbatim>\<open>req.body\<close>.
\<close>

datatype http_method = GET | POST

datatype segment = Lit string | Param string

datatype route =
    Healthcheck
  | KnowledgeCategories
  | KnowledgeArticles
  | CasesFirst
  | CasesSecond
  | CaseReply
  | SearchRoute

definition routes :: "(http_method \<times> segment list \<times> route) list" where
  "routes =
     [(GET, [Lit ''api'', Lit ''healthcheck''], Healthcheck),
      (GET, [Lit ''api'', Lit ''knowledge'', Lit ''categories''], KnowledgeCategories),
      (GET, [Lit ''api'', Lit ''knowledge'', Lit ''articles'', Param ''categoryName''],
         KnowledgeArticles),
      (GET, [Lit ''api'', Lit ''cases'', Param ''email''], CasesFirst),
      (GET, [Lit ''api'', Lit ''cases'', Param ''email''], CasesSecond),
      (POST, [Lit ''api'', Lit ''cases'', Param ''caseId'', Lit ''reply''], CaseReply),
      (POST, [Lit ''api'', Lit ''search''], SearchRoute)]"

fun match_path :: "segment list \<Rightarrow> string list \<Rightarrow> (string \<times> jsval) list option" where
  "match_path [] [] = Some []"
| "match_path (Lit l # ps) (s # ss) = (if s = l then match_path ps ss else None)"
| "match_path (Param n # ps) (s # ss) =
     (if s = [] then None
      else (case match_path ps ss of None \<Rightarrow> None | Some params \<Rightarrow> Some ((n, JStr s) # params)))"
| "match_path ps ss = None"

fun find_route ::
  "(http_method \<times> segment list \<times> route) list \<Rightarrow> http_method \<Rightarrow> string list \<Rightarrow>
   (route \<times> (string \<times> jsval) list) option" where
  "find_route [] m path = None"
| "find_route ((m', pat, r) # rest) m path =
     (if m' = m
      then (case match_path pat path of
              Some params \<Rightarrow> Some (r, params)
            | None \<Rightarrow> find_route rest m path)
      else find_route rest m path)"

record request =
  req_method :: http_method
  req_path :: "string list"
  req_origin :: "string option"
  req_body :: jsval

text \<open>Each route's handler, given \<^verbatim>\<open>req.params\<close> and \<^verbatim>\<open>req.body\<close>.\<close>

definition run_route ::
  "connection \<Rightarrow> upstream \<Rightarrow> route \<Rightarrow> (string \<times> jsval) list \<Rightarrow> jsval \<Rightarrow> result" where
  "run_route conn up r params reqBody =
     (case r of
        Healthcheck \<Rightarrow> healthcheck
      | KnowledgeCategories \<Rightarrow> knowledge_categories up
      | KnowledgeArticles \<Rightarrow> knowledge_articles up (obj_field params ''categoryName'')
      | CasesFirst \<Rightarrow> cases_by_email_first conn up (obj_field params ''email'')
      | CasesSecond \<Rightarrow> cases_by_email_second conn up (obj_field params ''email'')
      | CaseReply \<Rightarrow> case_reply up (obj_field params ''caseId'') reqBody
      | SearchRoute \<Rightarrow> search up reqBody)"

text \<open>What becomes of a request: the CORS middleware runs first and, on an error from
  the origin callback, hands the error on without any route being tried; otherwise the
  router looks for a route; a request that matches none is not handled by this program.\<close>

datatype served = Handled outcome | CorsRejected string | NoRoute

definition serve :: "connection \<Rightarrow> upstream \<Rightarrow> request \<Rightarrow> served \<times> upstream_call list" where
  "serve conn up req =
     (case cors_origin (req_origin req) of
        Inl msg \<Rightarrow> (CorsRejected msg, [])
      | Inr allow \<Rightarrow>
          (case find_route routes (req_method req) (req_path req) of
             None \<Rightarrow> (NoRoute, [])
           | Some (r, params) \<Rightarrow>
               (case run_route conn up r params (req_body req) of
                  (out, calls) \<Rightarrow> (Handled out, calls))))"

section \<open>Sample collaborators and the preview-domain pattern\<close>

text \<open>A CRM and language model that reject every call.\<close>

definition upstream_down :: upstream where
  "upstream_down =
     \<lparr>knowledge_getDataCategoryGroups = (\<lambda>groups. Inl ''ECONNREFUSED''),
      knowledge_getCategoryTree = (\<lambda>name depth. Inl ''ECONNREFUSED''),
      conn_query = (\<lambda>q. Inl ''ECONNREFUSED''),
      conn_search = (\<lambda>q. Inl ''ECONNREFUSED''),
      sobject_create = (\<lambda>type record. Inl ''ECONNREFUSED''),
      model_generateContent = (\<lambda>prompt. Inl ''ECONNREFUSED'')\<rparr>"

text \<open>A CRM that answers every call and holds no records.\<close>

definition upstream_empty :: upstream where
  "upstream_empty =
     \<lparr>knowledge_getDataCategoryGroups = (\<lambda>groups. Inr [JObj [(''name'', JStr ''Knowledge'')]]),
      knowledge_getCategoryTree = (\<lambda>name depth. Inr (JObj [(''topCategories'', JArr [])])),
      conn_query = (\<lambda>q. Inr (JArr [])),
      conn_search = (\<lambda>q. Inr (Some [])),
      sobject_create = (\<lambda>type record. Inr (JObj [(''id'', JStr ''00a1''), (''success'', JBool True)])),
      model_generateContent = (\<lambda>prompt. Inr ''No answer.'')\<rparr>"

text \<open>A CRM whose search finds two articles, and a model with a fixed completion.\<close>

definition reset_password_article :: article where
  "reset_password_article =
     [(''Id'', JStr ''ka01''), (''Title'', JStr ''Reset Password''),
      (''Summary'', JStr ''How to reset it''), (''UrlName'', JStr ''reset-password'')]"

definition billing_faq_article :: article where
  "billing_faq_article =
     [(''Id'', JStr ''ka02''), (''Title'', JStr ''Billing FAQ''),
      (''Summary'', JNull), (''UrlName'', JStr ''billing-faq'')]"

definition upstream_two_articles :: upstream where
  "upstream_two_articles =
     upstream_empty
       \<lparr>conn_search := (\<lambda>q. Inr (Some [reset_password_article, billing_faq_article])),
        model_generateContent := (\<lambda>prompt. Inr ''See Reset Password.'')\<rparr>"

text \<open>Modelled from the spec: the "wildcard deployment-preview domain pattern" of the
  CORS policy, read as \<^verbatim>\<open>*.vercel.app\<close>: an origin whose host lies under the preview
  domain, so that the origin ends with \<^verbatim>\<open>.vercel.app\<close>. The source has no such
  definition; its test is \<open>str_includes origin ''vercel.app''\<close>.\<close>

definition matches_preview_pattern :: "string \<Rightarrow> bool" where
  "matches_preview_pattern origin = suffix ''.vercel.app'' origin"

section \<open>Facts about strings and lists\<close>

lemma sublist_inside: "sublist x m \<Longrightarrow> sublist x (p @ m @ q)"
proof -
  assume "sublist x m"
  then obtain a b where "m = a @ x @ b" by (auto simp: sublist_def)
  then have "p @ m @ q = (p @ a) @ x @ (b @ q)" by simp
  then show ?thesis unfolding sublist_def by blast
qed

lemma sublist_chain: "sublist x m \<Longrightarrow> sublist m y \<Longrightarrow> sublist x y"
proof -
  assume "sublist x m" and "sublist m y"
  then obtain p q where "y = p @ m @ q" by (auto simp: sublist_def)
  with \<open>sublist x m\<close> show ?thesis by (simp add: sublist_inside)
qed

lemma join_member_sublist: "x \<in> set xs \<Longrightarrow> sublist x (join sep xs)"
proof (induction sep xs rule: join.induct)
  case (1 sep)
  then show ?case by simp
next
  case (2 sep y)
  then show ?case by simp
next
  case (3 sep a b ys)
  show ?case
  proof (cases "x = a")
    case True
    then show ?thesis by simp
  next
    case False
    with 3 have "sublist x (join sep (b # ys))" by simp
    then have "sublist x ((a @ sep) @ join sep (b # ys) @ [])" by (rule sublist_inside)
    then show ?thesis by simp
  qed
qed

lemma indexOf_from_absent: "0 \<le> i \<Longrightarrow> (indexOf_from i xs x = - 1) = (x \<notin> set xs)"
  by (induction xs arbitrary: i) auto

lemma indexOf_absent: "(indexOf xs x = - 1) = (x \<notin> set xs)"
  by (simp add: indexOf_def indexOf_from_absent)

section \<open>The two GET /api/cases/:email handlers\<close>

lemma cases_soql_differ: "cases_soql_first e \<noteq> cases_soql_second e'"
  by (simp add: cases_soql_first_def cases_soql_second_def)

lemma cases_first_calls:
  "truthy (accessToken conn) \<Longrightarrow>
   snd (cases_by_email_first conn up email) = [Query (cases_soql_first (ToString email))]"
  by (simp add: cases_by_email_first_def Let_def split: sum.splits)

lemma cases_first_not_connected:
  "\<not> truthy (accessToken conn) \<Longrightarrow>
   cases_by_email_first conn up email =
     (Responded 401 (error_body ''Salesforce not connected''), [])"
  by (simp add: cases_by_email_first_def)

lemma cases_second_calls:
  "truthy email \<Longrightarrow>
   snd (cases_by_email_second conn up email) = [Query (cases_soql_second (ToString email))]"
  by (simp add: cases_by_email_second_def Let_def split: sum.splits)

lemma cases_second_empty:
  "\<not> truthy email \<Longrightarrow>
   cases_by_email_second conn up email =
     (Responded 400 (error_body ''Email parameter is required.''), [])"
  by (simp add: cases_by_email_second_def)

lemma cases_first_never_400: "fst (cases_by_email_first conn up email) \<noteq> Responded 400 b"
  by (simp add: cases_by_email_first_def Let_def lookup_identifier_def cases_first_scope_def
      split: sum.splits)

lemma cases_second_never_401: "fst (cases_by_email_second conn up email) \<noteq> Responded 401 b"
  by (simp add: cases_by_email_second_def Let_def split: sum.splits)

lemma cases_handlers_differ:
  "cases_by_email_first conn up email \<noteq> cases_by_email_second conn up email"
proof (cases "truthy email")
  case email_given: True
  have "snd (cases_by_email_first conn up email) \<noteq> snd (cases_by_email_second conn up email)"
  proof (cases "truthy (accessToken conn)")
    case True
    then show ?thesis
      by (simp add: cases_first_calls cases_second_calls[OF email_given] cases_soql_differ)
  next
    case False
    then show ?thesis
      by (simp add: cases_first_not_connected cases_second_calls[OF email_given])
  qed
  then show ?thesis by auto
next
  case no_email: False
  have "fst (cases_by_email_second conn up email) =
          Responded 400 (error_body ''Email parameter is required.'')"
    by (simp add: cases_second_empty[OF no_email])
  with cases_first_never_400[of conn up email "error_body ''Email parameter is required.''"]
  show ?thesis by auto
qed

lemma cases_first_filter:
  "sublist (''Contact.Email = '' @ SQ @ e @ SQ @ '' AND Status != 'Closed'' @ SQ)
     (cases_soql_first e)"
  unfolding cases_soql_first_def sublist_def
  apply (rule exI[of _ "NL @ ''      SELECT Id, CaseNumber, Subject, Description, Status, CreatedDate '' @
                        NL @ ''      FROM Case '' @ NL @ ''      WHERE ''"])
  apply (rule exI[of _ "NL @ ''      ORDER BY CreatedDate DESC'' @ NL @ ''    ''"])
  by simp

lemma cases_second_filter:
  "sublist (''ContactEmail = '' @ SQ @ e @ SQ @ '' AND IsClosed = false'') (cases_soql_second e)"
  unfolding cases_soql_second_def sublist_def
  apply (rule exI[of _ "NL @ ''      SELECT Id, CaseNumber, Subject, Status, CreatedDate, Description '' @
                        NL @ ''      FROM Case '' @ NL @ ''      WHERE ''"])
  apply (rule exI[of _ "NL @ ''      ORDER BY CreatedDate DESC'' @ NL @ ''    ''"])
  by simp

text \<open>
  Claim C1. The route GET /cases/:email is registered twice and the two handler bodies
  are not equivalent. On every session, collaborator and email the two handlers differ
  in what they do. For the same email the first builds a query that filters on
  \<^verbatim>\<open>Contact.Email = '<email>' AND Status != 'Closed'\<close>, the second one that filters on
  \<^verbatim>\<open>ContactEmail = '<email>' AND IsClosed = false\<close>, and the two queries are never equal.
  Only the second answers 400 on an empty email (the first, once connected, queries with
  it); only the first answers 401 without a session token (the second never does).
\<close>

theorem cases_handlers_not_equivalent:
  "cases_by_email_first conn up email \<noteq> cases_by_email_second conn up email
   \<and> cases_soql_first e \<noteq> cases_soql_second e
   \<and> sublist (''Contact.Email = '' @ SQ @ e @ SQ @ '' AND Status != 'Closed'' @ SQ)
        (cases_soql_first e)
   \<and> sublist (''ContactEmail = '' @ SQ @ e @ SQ @ '' AND IsClosed = false'')
        (cases_soql_second e)
   \<and> snd (cases_by_email_first \<lparr>accessToken = JStr (t # ts)\<rparr> up (JStr e)) =
        [Query (cases_soql_first e)]
   \<and> snd (cases_by_email_second conn up (JStr (c # cs))) = [Query (cases_soql_second (c # cs))]
   \<and> cases_by_email_second conn up (JStr []) =
        (Responded 400 (Json (JObj [(''error'', JStr ''Email parameter is required.'')])), [])
   \<and> (\<forall>b. fst (cases_by_email_first conn up (JStr [])) \<noteq> Responded 400 b)
   \<and> cases_by_email_first \<lparr>accessToken = JUndefined\<rparr> up email =
        (Responded 401 (Json (JObj [(''error'', JStr ''Salesforce not connected'')])), [])
   \<and> (\<forall>b. fst (cases_by_email_second conn up email) \<noteq> Responded 401 b)"
proof (intro conjI allI)
  show "cases_by_email_first conn up email \<noteq> cases_by_email_second conn up email"
    by (rule cases_handlers_differ)
  show "cases_soql_first e \<noteq> cases_soql_second e"
    by (rule cases_soql_differ)
  show "sublist (''Contact.Email = '' @ SQ @ e @ SQ @ '' AND Status != 'Closed'' @ SQ)
          (cases_soql_first e)"
    by (rule cases_first_filter)
  show "sublist (''ContactEmail = '' @ SQ @ e @ SQ @ '' AND IsClosed = false'')
          (cases_soql_second e)"
    by (rule cases_second_filter)
  show "snd (cases_by_email_first \<lparr>accessToken = JStr (t # ts)\<rparr> up (JStr e)) =
          [Query (cases_soql_first e)]"
    by (simp add: cases_first_calls)
  show "snd (cases_by_email_second conn up (JStr (c # cs))) =
          [Query (cases_soql_second (c # cs))]"
    by (simp add: cases_second_calls)
  show "cases_by_email_second conn up (JStr []) =
          (Responded 400 (Json (JObj [(''error'', JStr ''Email parameter is required.'')])), [])"
    by (simp add: cases_second_empty error_body_def)
  show "fst (cases_by_email_first conn up (JStr [])) \<noteq> Responded 400 b" for b
    by (rule cases_first_never_400)
  show "cases_by_email_first \<lparr>accessToken = JUndefined\<rparr> up email =
          (Responded 401 (Json (JObj [(''error'', JStr ''Salesforce not connected'')])), [])"
    by (simp add: cases_first_not_connected error_body_def)
  show "fst (cases_by_email_second conn up email) \<noteq> Responded 401 b" for b
    by (rule cases_second_never_401)
qed

section \<open>Requests through the router\<close>

lemma serve_categories:
  "serve conn up \<lparr>req_method = GET, req_path = [''api'', ''knowledge'', ''categories''],
                  req_origin = None, req_body = b\<rparr> =
     (Handled (fst (knowledge_categories up)), snd (knowledge_categories up))"
  by (simp add: serve_def cors_origin_def routes_def run_route_def split: prod.splits)

lemma serve_cases:
  "serve conn up \<lparr>req_method = GET, req_path = [''api'', ''cases'', c # cs],
                  req_origin = None, req_body = b\<rparr> =
     (Handled (fst (cases_by_email_first conn up (JStr (c # cs)))),
      snd (cases_by_email_first conn up (JStr (c # cs))))"
  by (simp add: serve_def cors_origin_def routes_def run_route_def obj_field_def
      split: prod.splits)

text \<open>
  Claim C2. A GET /knowledge/article/:urlName request should fetch the one article of
  that name and return it. The source registers no route for this path: whatever the
  segment \<open>urlName\<close>, the session and the collaborators, the router finds no handler,
  under either method, so the request is not handled and no upstream fetch is made. The
  client calls this path (\<^verbatim>\<open>handleArticleSelect\<close>), and the only trace of its handler in
  \<^verbatim>\<open>server.js\<close> is the \<^verbatim>\<open>catch\<close> block that now closes the first cases handler.
\<close>

theorem article_route_not_registered:
  "serve conn up \<lparr>req_method = GET, req_path = [''api'', ''knowledge'', ''article'', urlName],
                  req_origin = None, req_body = b\<rparr> = (NoRoute, [])
   \<and> find_route routes m [''api'', ''knowledge'', ''article'', urlName] = None"
  by (cases m) (simp_all add: serve_def cors_origin_def routes_def)

section \<open>Upstream failures\<close>

lemma categories_failure_enveloped:
  "knowledge_getDataCategoryGroups up [''Knowledge''] = Inl msg \<Longrightarrow>
   knowledge_categories up =
     (Responded 500 (Json (JObj [(''error'', JStr ''Failed to fetch knowledge categories'')])),
      [GetDataCategoryGroups [''Knowledge'']])"
  by (simp add: knowledge_categories_def Let_def error_body_def)

lemma cases_second_failure_enveloped:
  "truthy email \<Longrightarrow> conn_query up (cases_soql_second (ToString email)) = Inl msg \<Longrightarrow>
   cases_by_email_second conn up email =
     (Responded 500
        (Json (JObj [(''error'', JStr (''Failed to fetch cases for email '' @ ToString email))])),
      [Query (cases_soql_second (ToString email))])"
  by (simp add: cases_by_email_second_def Let_def error_body_def)

lemma case_reply_failure_enveloped:
  "truthy (obj_field kvs ''commentBody'') \<Longrightarrow>
   sobject_create up ''CaseComment''
     (case_comment caseId (obj_field kvs ''commentBody'') (obj_field kvs ''isPublic'')) =
     Inl msg \<Longrightarrow>
   fst (case_reply up caseId (JObj kvs)) =
     Responded 500 (Json (JObj [(''error'', JStr ''Failed to post reply'')]))"
  by (simp add: case_reply_def Let_def error_body_def)

lemma search_failure_enveloped:
  "truthy (obj_field kvs ''searchTerm'') \<Longrightarrow>
   conn_search up (sosl_query (ToString (obj_field kvs ''searchTerm''))) = Inl msg \<Longrightarrow>
   search up (JObj kvs) =
     (Responded 500 (Json (JObj [(''error'', JStr ''Failed to perform search'')])),
      [Search (sosl_query (ToString (obj_field kvs ''searchTerm'')))])"
  by (simp add: search_def Let_def error_body_def)

lemma cases_first_failure:
  "cases_by_email_first \<lparr>accessToken = JStr (t # ts)\<rparr> (up\<lparr>conn_query := (\<lambda>q. Inl msg)\<rparr>) e =
     (Escaped (ReferenceError ''urlName''), [Query (cases_soql_first (ToString e))])"
  by (simp add: cases_by_email_first_def Let_def lookup_identifier_def cases_first_scope_def)

text \<open>The same at a concrete request: a connected session and a CRM that is down.\<close>

lemma cases_first_failure_example:
  "cases_by_email_first \<lparr>accessToken = JStr ''token''\<rparr> upstream_down (JStr ''a@b.c'') =
     (Escaped (ReferenceError ''urlName''), [Query (cases_soql_first ''a@b.c'')])"
  by (simp add: cases_by_email_first_def Let_def lookup_identifier_def cases_first_scope_def
      upstream_down_def)

text \<open>
  Claim C3. Every failing upstream call should be caught in its handler and answered
  with a JSON object holding the one field \<^verbatim>\<open>error\<close>. The categories, second cases,
  reply and search handlers do so (the lemmas above). The first GET /cases/:email
  handler does not: with a session token present and the CRM query rejected, whatever
  the email and the error message, its \<^verbatim>\<open>catch\<close> block reads \<^verbatim>\<open>urlName\<close>, a name bound
  nowhere, so a ReferenceError escapes the handler after the query was made and no
  response is sent. This is the handler that serves the route.
\<close>

theorem cases_first_upstream_failure_escapes:
  "cases_by_email_first \<lparr>accessToken = JStr (t # ts)\<rparr> (up\<lparr>conn_query := (\<lambda>q. Inl msg)\<rparr>) email =
     (Escaped (ReferenceError ''urlName''), [Query (cases_soql_first (ToString email))])
   \<and> serve \<lparr>accessToken = JStr (t # ts)\<rparr> (up\<lparr>conn_query := (\<lambda>q. Inl msg)\<rparr>)
       \<lparr>req_method = GET, req_path = [''api'', ''cases'', c # cs],
        req_origin = None, req_body = b\<rparr> =
     (Handled (Escaped (ReferenceError ''urlName'')), [Query (cases_soql_first (c # cs))])"
  by (simp add: serve_cases cases_first_failure)

section \<open>The session check\<close>

lemma categories_calls_first:
  "\<exists>rest. snd (knowledge_categories up) = GetDataCategoryGroups [''Knowledge''] # rest"
  by (simp add: knowledge_categories_def Let_def split: sum.splits list.splits)

lemma categories_never_401: "fst (knowledge_categories up) \<noteq> Responded 401 b"
  by (simp add: knowledge_categories_def Let_def error_body_def split: sum.splits list.splits)

lemma categories_no_session_example:
  "knowledge_categories upstream_down =
     (Responded 500 (Json (JObj [(''error'', JStr ''Failed to fetch knowledge categories'')])),
      [GetDataCategoryGroups [''Knowledge'']])"
  by (simp add: categories_failure_enveloped upstream_down_def)

text \<open>
  Claim C8. A route that needs the CRM session should answer 401 when the session is
  unavailable, before any upstream call. Only the first GET /cases/:email handler tests
  \<^verbatim>\<open>conn.accessToken\<close>. GET /knowledge/categories does not: with no token, whatever the
  collaborators do, its first act is the upstream call \<^verbatim>\<open>getDataCategoryGroups\<close>, it
  never answers 401, and when that call is rejected it answers 500.
\<close>

theorem categories_skips_session_check:
  "(\<exists>rest. snd (serve \<lparr>accessToken = JUndefined\<rparr> up
       \<lparr>req_method = GET, req_path = [''api'', ''knowledge'', ''categories''],
        req_origin = None, req_body = b\<rparr>) = GetDataCategoryGroups [''Knowledge''] # rest)
   \<and> (\<forall>e. fst (serve \<lparr>accessToken = JUndefined\<rparr> up
       \<lparr>req_method = GET, req_path = [''api'', ''knowledge'', ''categories''],
        req_origin = None, req_body = b\<rparr>) \<noteq> Handled (Responded 401 e))
   \<and> serve \<lparr>accessToken = JUndefined\<rparr> (up\<lparr>knowledge_getDataCategoryGroups := (\<lambda>g. Inl msg)\<rparr>)
       \<lparr>req_method = GET, req_path = [''api'', ''knowledge'', ''categories''],
        req_origin = None, req_body = b\<rparr> =
      (Handled
         (Responded 500 (Json (JObj [(''error'', JStr ''Failed to fetch knowledge categories'')]))),
       [GetDataCategoryGroups [''Knowledge'']])"
  by (simp add: serve_categories categories_calls_first categories_never_401
      categories_failure_enveloped)

section \<open>The search pipeline\<close>

text \<open>
  Claim C5. For every non-empty search term for which the CRM search returns zero
  candidates, POST /search answers 200 with exactly the fixed answer and an empty
  \<^verbatim>\<open>sources\<close> list; the CRM search is the only upstream call, so the language model is
  never invoked.
\<close>

theorem search_no_candidates:
  assumes "searchTerm \<noteq> []"
    and "obj_field kvs ''searchTerm'' = JStr searchTerm"
    and "conn_search up (sosl_query searchTerm) = Inr (Some [])"
  shows "search up (JObj kvs) =
           (Responded 200
              (Json (JObj [(''answer'', JStr ''I couldn't find any articles related to your search.''),
                           (''sources'', JArr [])])),
            [Search (sosl_query searchTerm)])
         \<and> (\<forall>prompt. GenerateContent prompt \<notin> set (snd (search up (JObj kvs))))"
  using assms by (simp add: search_def Let_def no_articles_answer_def)

text \<open>Witness for C5: the term \<^verbatim>\<open>xyzzy\<close> against a CRM that finds nothing.\<close>

theorem search_no_candidates_witness:
  "search upstream_empty (JObj [(''searchTerm'', JStr ''xyzzy'')]) =
     (Responded 200
        (Json (JObj [(''answer'', JStr ''I couldn't find any articles related to your search.''),
                     (''sources'', JArr [])])),
      [Search (sosl_query ''xyzzy'')])
   \<and> (\<forall>prompt. GenerateContent prompt \<notin>
         set (snd (search upstream_empty (JObj [(''searchTerm'', JStr ''xyzzy'')]))))"
  by (rule search_no_candidates) (simp_all add: obj_field_def upstream_empty_def)

lemma title_in_article_text: "sublist (ToString (obj_field a ''Title'')) (article_text a)"
  unfolding article_text_def by (rule sublist_inside) simp

lemma title_in_context:
  assumes "a \<in> set articles"
  shows "sublist (ToString (obj_field a ''Title'')) (search_context articles)"
proof -
  have "article_text a \<in> set (map article_text articles)" using assms by simp
  then have "sublist (article_text a) (search_context articles)"
    unfolding search_context_def by (rule join_member_sublist)
  with title_in_article_text show ?thesis by (rule sublist_chain)
qed

lemma context_in_prompt: "sublist c (search_prompt c s)"
  unfolding search_prompt_def sublist_def
  apply (rule exI[of _ "NL @ ''            Based on the following knowledge base articles, please answer the user's question. '' @
     NL @ ''            Provide a concise, helpful answer and cite the titles of the articles you used.'' @
     NL @ ''            If the articles don't contain the answer, say that you couldn't find an answer in the knowledge base.'' @
     NL @ NL @ ''            ARTICLES:'' @ NL @ ''            ---'' @ NL @ ''            ''"])
  apply (rule exI[of _ "NL @ ''            ---'' @ NL @
     NL @ ''            USER QUESTION: '' @ DQ @ s @ DQ @ NL @
     NL @ ''            ANSWER:'' @ NL @ ''        ''"])
  by simp

lemma term_in_prompt: "sublist s (search_prompt c s)"
  unfolding search_prompt_def sublist_def
  apply (rule exI[of _ "NL @ ''            Based on the following knowledge base articles, please answer the user's question. '' @
     NL @ ''            Provide a concise, helpful answer and cite the titles of the articles you used.'' @
     NL @ ''            If the articles don't contain the answer, say that you couldn't find an answer in the knowledge base.'' @
     NL @ NL @ ''            ARTICLES:'' @ NL @ ''            ---'' @ NL @ ''            '' @ c @
     NL @ ''            ---'' @ NL @ NL @ ''            USER QUESTION: '' @ DQ"])
  apply (rule exI[of _ "DQ @ NL @ NL @ ''            ANSWER:'' @ NL @ ''        ''"])
  by simp

text \<open>
  Claim C6. For every non-empty search term for which the CRM search returns a
  non-empty candidate list, the prompt given to the language model contains the title of
  every candidate (as the template literal renders it; a string title is rendered as
  itself) and the search term; when the model returns a completion, the response is 200
  with \<^verbatim>\<open>answer\<close> equal to that text and \<^verbatim>\<open>sources\<close> equal to the candidates in the
  order the search returned them. The upstream calls are the search, then the completion.
\<close>

theorem search_prompt_answer_sources:
  assumes "searchTerm \<noteq> []"
    and "obj_field kvs ''searchTerm'' = JStr searchTerm"
    and "conn_search up (sosl_query searchTerm) = Inr (Some articles)"
    and "articles \<noteq> []"
    and "model_generateContent up (search_prompt (search_context articles) searchTerm) = Inr text"
  shows "search up (JObj kvs) =
           (Responded 200
              (Json (JObj [(''answer'', JStr text), (''sources'', JArr (map JObj articles))])),
            [Search (sosl_query searchTerm),
             GenerateContent (search_prompt (search_context articles) searchTerm)])
         \<and> (\<forall>a \<in> set articles.
               sublist (ToString (obj_field a ''Title''))
                 (search_prompt (search_context articles) searchTerm))
         \<and> sublist searchTerm (search_prompt (search_context articles) searchTerm)"
proof (intro conjI ballI)
  show "search up (JObj kvs) =
          (Responded 200
             (Json (JObj [(''answer'', JStr text), (''sources'', JArr (map JObj articles))])),
           [Search (sosl_query searchTerm),
            GenerateContent (search_prompt (search_context articles) searchTerm)])"
    using assms by (simp add: search_def Let_def)
next
  fix a assume "a \<in> set articles"
  then have "sublist (ToString (obj_field a ''Title'')) (search_context articles)"
    by (rule title_in_context)
  then show "sublist (ToString (obj_field a ''Title''))
               (search_prompt (search_context articles) searchTerm)"
    using context_in_prompt by (rule sublist_chain)
next
  show "sublist searchTerm (search_prompt (search_context articles) searchTerm)"
    by (rule term_in_prompt)
qed

text \<open>Witness for C6: the term \<^verbatim>\<open>password\<close>, two articles titled \<^verbatim>\<open>Reset Password\<close>
  and \<^verbatim>\<open>Billing FAQ\<close>, and a model that completes with a fixed text.\<close>

theorem search_prompt_answer_sources_witness:
  "search upstream_two_articles (JObj [(''searchTerm'', JStr ''password'')]) =
     (Responded 200
        (Json (JObj [(''answer'', JStr ''See Reset Password.''),
                     (''sources'', JArr [JObj reset_password_article, JObj billing_faq_article])])),
      [Search (sosl_query ''password''),
       GenerateContent
         (search_prompt (search_context [reset_password_article, billing_faq_article])
            ''password'')])
   \<and> sublist ''Reset Password''
        (search_prompt (search_context [reset_password_article, billing_faq_article]) ''password'')
   \<and> sublist ''Billing FAQ''
        (search_prompt (search_context [reset_password_article, billing_faq_article]) ''password'')
   \<and> sublist ''password''
        (search_prompt (search_context [reset_password_article, billing_faq_article]) ''password'')"
proof -
  have t1: "ToString (obj_field reset_password_article ''Title'') = ''Reset Password''"
    by (simp add: obj_field_def reset_password_article_def)
  have t2: "ToString (obj_field billing_faq_article ''Title'') = ''Billing FAQ''"
    by (simp add: obj_field_def billing_faq_article_def)
  have "''password'' \<noteq> []" by simp
  moreover have "obj_field [(''searchTerm'', JStr ''password'')] ''searchTerm'' = JStr ''password''"
    by (simp add: obj_field_def)
  moreover have "conn_search upstream_two_articles (sosl_query ''password'') =
                   Inr (Some [reset_password_article, billing_faq_article])"
    by (simp add: upstream_two_articles_def)
  moreover have "[reset_password_article, billing_faq_article] \<noteq> []" by simp
  moreover have "model_generateContent upstream_two_articles
                   (search_prompt (search_context [reset_password_article, billing_faq_article])
                      ''password'') = Inr ''See Reset Password.''"
    by (simp add: upstream_two_articles_def)
  ultimately show ?thesis
    using search_prompt_answer_sources[of "''password''" "[(''searchTerm'', JStr ''password'')]"
        upstream_two_articles "[reset_password_article, billing_faq_article]"
        "''See Reset Password.''"]
    by (simp add: t1 t2)
qed

section \<open>Validation before upstream calls\<close>

text \<open>
  Claim C4, as amended. For each handler that validates a parameter (POST
  /cases/:caseId/reply: body field \<^verbatim>\<open>commentBody\<close>; POST /search: body field
  \<^verbatim>\<open>searchTerm\<close>; the second GET /cases/:email handler: \<^verbatim>\<open>email\<close>), a request in which
  that parameter is absent or falsy (\<^verbatim>\<open>undefined\<close>, \<^verbatim>\<open>null\<close>, \<^verbatim>\<open>false\<close>, \<^verbatim>\<open>0\<close>, the
  empty string) is answered with 400 and a non-empty \<^verbatim>\<open>error\<close> string, and no upstream
  call is made.
\<close>

theorem validation_rejects_falsy_parameters:
  "(\<not> truthy (obj_field kvs ''commentBody'') \<longrightarrow>
      case_reply up caseId (JObj kvs) =
        (Responded 400 (Json (JObj [(''error'', JStr ''commentBody is required.'')])), []))
   \<and> (\<not> truthy (obj_field kvs ''searchTerm'') \<longrightarrow>
      search up (JObj kvs) =
        (Responded 400 (Json (JObj [(''error'', JStr ''searchTerm is required.'')])), []))
   \<and> (\<not> truthy email \<longrightarrow>
      cases_by_email_second conn up email =
        (Responded 400 (Json (JObj [(''error'', JStr ''Email parameter is required.'')])), []))"
  by (simp add: case_reply_def search_def cases_by_email_second_def error_body_def)

text \<open>Witness for C4: a body without \<^verbatim>\<open>commentBody\<close>, one with it empty, a \<^verbatim>\<open>null\<close> and
  an empty \<^verbatim>\<open>searchTerm\<close>, and an empty email.\<close>

theorem validation_rejects_falsy_parameters_witness:
  "case_reply upstream_empty (JStr ''5003'') (JObj []) =
     (Responded 400 (Json (JObj [(''error'', JStr ''commentBody is required.'')])), [])
   \<and> case_reply upstream_empty (JStr ''5003'') (JObj [(''commentBody'', JStr [])]) =
     (Responded 400 (Json (JObj [(''error'', JStr ''commentBody is required.'')])), [])
   \<and> search upstream_empty (JObj [(''searchTerm'', JNull)]) =
     (Responded 400 (Json (JObj [(''error'', JStr ''searchTerm is required.'')])), [])
   \<and> search upstream_empty (JObj [(''searchTerm'', JStr [])]) =
     (Responded 400 (Json (JObj [(''error'', JStr ''searchTerm is required.'')])), [])
   \<and> cases_by_email_second \<lparr>accessToken = JStr ''token''\<rparr> upstream_empty (JStr []) =
     (Responded 400 (Json (JObj [(''error'', JStr ''Email parameter is required.'')])), [])"
  using validation_rejects_falsy_parameters[of "[]" upstream_empty "JStr ''5003''" "JStr []"
          "\<lparr>accessToken = JStr ''token''\<rparr>"]
        validation_rejects_falsy_parameters[of "[(''commentBody'', JStr [])]" upstream_empty
          "JStr ''5003''"]
        validation_rejects_falsy_parameters[of "[(''searchTerm'', JNull)]" upstream_empty]
        validation_rejects_falsy_parameters[of "[(''searchTerm'', JStr [])]" upstream_empty]
  by (simp add: obj_field_def)

text \<open>Counterexample to C4 as stated: a blank (one space) \<^verbatim>\<open>categoryName\<close> and a blank
  \<^verbatim>\<open>searchTerm\<close> are not answered with 400; each reaches the CRM and is answered 200.
  A request that omits the \<^verbatim>\<open>categoryName\<close> segment matches no route, so no handler
  answers it with 400 either.\<close>

theorem blank_parameter_reaches_upstream:
  "serve \<lparr>accessToken = JStr ''token''\<rparr> upstream_empty
     \<lparr>req_method = GET, req_path = [''api'', ''knowledge'', ''articles''],
      req_origin = None, req_body = JObj []\<rparr> = (NoRoute, [])
   \<and> serve \<lparr>accessToken = JStr ''token''\<rparr> upstream_empty
     \<lparr>req_method = GET, req_path = [''api'', ''knowledge'', ''articles'', '' ''],
      req_origin = None, req_body = JObj []\<rparr> =
     (Handled (Responded 200 (Json (JArr []))), [Query (articles_query '' '')])
   \<and> serve \<lparr>accessToken = JStr ''token''\<rparr> upstream_empty
     \<lparr>req_method = POST, req_path = [''api'', ''search''],
      req_origin = None, req_body = JObj [(''searchTerm'', JStr '' '')]\<rparr> =
     (Handled (Responded 200
        (Json (JObj [(''answer'', JStr ''I couldn't find any articles related to your search.''),
                     (''sources'', JArr [])]))),
      [Search (sosl_query '' '')])"
  by (simp add: serve_def cors_origin_def routes_def run_route_def knowledge_articles_def
      search_def obj_field_def upstream_empty_def Let_def no_articles_answer_def)

section \<open>The CORS layer\<close>

lemma preview_pattern_includes:
  "matches_preview_pattern origin \<Longrightarrow> str_includes origin ''vercel.app''"
proof -
  assume "matches_preview_pattern origin"
  then obtain p where "origin = p @ ''.vercel.app''"
    by (auto simp: matches_preview_pattern_def suffix_def)
  then have "origin = (p @ ''.'') @ ''vercel.app'' @ []" by simp
  then show ?thesis unfolding str_includes_def sublist_def by blast
qed

text \<open>
  Claim C7, as amended. The origin callback accepts a request that carries no Origin
  header or an empty one, every origin on the allow-list, and every origin that matches
  the preview-domain pattern. It rejects every non-empty origin that is not on the
  allow-list and does not contain the text \<^verbatim>\<open>vercel.app\<close>, and such a request is
  turned away before the router runs: no route handler executes and no upstream call
  is made. (What happens to an origin that contains \<^verbatim>\<open>vercel.app\<close> without matching the
  pattern is left out.)
\<close>

theorem cors_accepts_and_rejects:
  "cors_origin None = Inr True
   \<and> cors_origin (Some []) = Inr True
   \<and> (origin \<in> set allowedOrigins \<longrightarrow> cors_origin (Some origin) = Inr True)
   \<and> (matches_preview_pattern origin \<longrightarrow> cors_origin (Some origin) = Inr True)
   \<and> (origin \<noteq> [] \<and> \<not> str_includes origin ''vercel.app'' \<and> origin \<notin> set allowedOrigins \<longrightarrow>
        cors_origin (Some origin) = Inl cors_message
        \<and> serve conn up (req\<lparr>req_origin := Some origin\<rparr>) = (CorsRejected cors_message, []))"
proof (intro conjI impI)
  show "cors_origin None = Inr True" by (simp add: cors_origin_def)
  show "cors_origin (Some []) = Inr True" by (simp add: cors_origin_def)
next
  assume "origin \<in> set allowedOrigins"
  then show "cors_origin (Some origin) = Inr True"
    by (simp add: cors_origin_def indexOf_absent)
next
  assume "matches_preview_pattern origin"
  then show "cors_origin (Some origin) = Inr True"
    by (simp add: cors_origin_def preview_pattern_includes)
next
  assume "origin \<noteq> [] \<and> \<not> str_includes origin ''vercel.app'' \<and> origin \<notin> set allowedOrigins"
  then show rejected: "cors_origin (Some origin) = Inl cors_message"
    by (simp add: cors_origin_def indexOf_absent)
  then show "serve conn up (req\<lparr>req_origin := Some origin\<rparr>) = (CorsRejected cors_message, [])"
    by (simp add: serve_def)
qed

text \<open>Witness for C7: the local development origin, a preview deployment, and a foreign
  origin posting a case reply.\<close>

theorem cors_accepts_and_rejects_witness:
  "cors_origin (Some ''http://localhost:3000'') = Inr True
   \<and> cors_origin (Some ''https://portal-git-main.vercel.app'') = Inr True
   \<and> cors_origin (Some ''http://evil.example'') = Inl cors_message
   \<and> serve \<lparr>accessToken = JStr ''token''\<rparr> upstream_empty
        \<lparr>req_method = POST, req_path = [''api'', ''cases'', ''5003'', ''reply''],
         req_origin = Some ''http://evil.example'',
         req_body = JObj [(''commentBody'', JStr ''thanks'')]\<rparr> = (CorsRejected cors_message, [])"
proof -
  have listed: "''http://localhost:3000'' \<in> set allowedOrigins"
    by (simp add: allowedOrigins_def)
  have preview: "matches_preview_pattern ''https://portal-git-main.vercel.app''"
    by (simp add: matches_preview_pattern_def suffix_to_prefix)
  have foreign: "''http://evil.example'' \<noteq> []
      \<and> \<not> str_includes ''http://evil.example'' ''vercel.app''
      \<and> ''http://evil.example'' \<notin> set allowedOrigins"
    by (simp add: str_includes_def allowedOrigins_def sublist_code)
  show ?thesis
    using cors_accepts_and_rejects[of "''http://localhost:3000''"] listed
          cors_accepts_and_rejects[of "''https://portal-git-main.vercel.app''"] preview
          cors_accepts_and_rejects[of "''http://evil.example''" "\<lparr>accessToken = JStr ''token''\<rparr>"
            upstream_empty
            "\<lparr>req_method = POST, req_path = [''api'', ''cases'', ''5003'', ''reply''],
              req_origin = None, req_body = JObj [(''commentBody'', JStr ''thanks'')]\<rparr>"]
          foreign
    by simp
qed

text \<open>Counterexample to C7 as stated: the callback accepts a missing and an empty Origin,
  and the origin \<^verbatim>\<open>http://vercel.app.evil.example\<close>; none is on the allow-list and none
  matches the preview-domain pattern.\<close>

theorem cors_accepts_outside_stated_set:
  "cors_origin None = Inr True
   \<and> cors_origin (Some []) = Inr True
   \<and> [] \<notin> set allowedOrigins
   \<and> \<not> matches_preview_pattern []
   \<and> cors_origin (Some ''http://vercel.app.evil.example'') = Inr True
   \<and> ''http://vercel.app.evil.example'' \<notin> set allowedOrigins
   \<and> \<not> matches_preview_pattern ''http://vercel.app.evil.example''"
  by (simp add: cors_origin_def allowedOrigins_def matches_preview_pattern_def suffix_to_prefix
      str_includes_def sublist_code)

section \<open>Query construction\<close>

lemma articles_query_template:
  "articles_query c =
    (NL @ ''      SELECT Id, Title, UrlName, Summary '' @
     NL @ ''      FROM Knowledge__kav '' @
     NL @ ''      WHERE PublishStatus='Online' AND Language='en_US' '' @
     NL @ ''      AND DataCategorySelections.Knowledge.at('' @ SQ) @ c @
    (SQ @ '')'' @
     NL @ ''      ORDER BY LastPublishedDate DESC'' @
     NL @ ''      LIMIT 20'' @
     NL @ ''    '')"
  by (simp add: articles_query_def)

lemma cases_soql_first_template:
  "cases_soql_first e =
    (NL @ ''      SELECT Id, CaseNumber, Subject, Description, Status, CreatedDate '' @
     NL @ ''      FROM Case '' @
     NL @ ''      WHERE Contact.Email = '' @ SQ) @ e @
    (SQ @ '' AND Status != 'Closed'' @ SQ @
     NL @ ''      ORDER BY CreatedDate DESC'' @
     NL @ ''    '')"
  by (simp add: cases_soql_first_def)

lemma cases_soql_second_template:
  "cases_soql_second e =
    (NL @ ''      SELECT Id, CaseNumber, Subject, Status, CreatedDate, Description '' @
     NL @ ''      FROM Case '' @
     NL @ ''      WHERE ContactEmail = '' @ SQ) @ e @
    (SQ @ '' AND IsClosed = false'' @
     NL @ ''      ORDER BY CreatedDate DESC'' @
     NL @ ''    '')"
  by (simp add: cases_soql_second_def)

lemma sosl_query_template:
  "sosl_query s =
    (NL @ ''          FIND {*'') @ s @
    (''*} IN ALL FIELDS '' @
     NL @ ''          RETURNING Knowledge__kav(Id, Title, Summary, UrlName WHERE PublishStatus='Online' AND Language='en_US' LIMIT 10)'' @
     NL @ ''        '')"
  by (simp add: sosl_query_def)

lemma articles_calls: "snd (knowledge_articles up c) = [Query (articles_query (ToString c))]"
  by (simp add: knowledge_articles_def Let_def split: sum.splits)

lemma search_first_call:
  "truthy (obj_field kvs ''searchTerm'') \<Longrightarrow>
   take 1 (snd (search up (JObj kvs))) =
     [Search (sosl_query (ToString (obj_field kvs ''searchTerm'')))]"
  by (simp add: search_def Let_def split: sum.splits option.splits)

text \<open>A quote in the input ends the query's string literal: nothing escapes it.\<close>

lemma quote_in_email_is_not_escaped:
  "sublist (''ContactEmail = 'x' OR Id != '' @ SQ @ SQ @ '' AND IsClosed = false'')
     (cases_soql_second (''x' OR Id != '' @ SQ))"
  using cases_second_filter[of "''x' OR Id != '' @ SQ"] by simp

text \<open>
  Claim C9. For each input taken from a path segment or body field (\<^verbatim>\<open>categoryName\<close>,
  \<^verbatim>\<open>email\<close> in both cases handlers, \<^verbatim>\<open>searchTerm\<close>), the query sent to the CRM is a
  fixed text before the input, the input itself unchanged, and a fixed text after it:
  the same two texts for every input string, whatever characters it contains.
\<close>

theorem queries_embed_raw_input:
  "(\<exists>pre post. \<forall>categoryName up.
      snd (knowledge_articles up (JStr categoryName)) = [Query (pre @ categoryName @ post)])
   \<and> (\<exists>pre post. \<forall>email t ts up.
      snd (cases_by_email_first \<lparr>accessToken = JStr (t # ts)\<rparr> up (JStr email)) =
        [Query (pre @ email @ post)])
   \<and> (\<exists>pre post. \<forall>c cs conn up.
      snd (cases_by_email_second conn up (JStr (c # cs))) = [Query (pre @ (c # cs) @ post)])
   \<and> (\<exists>pre post. \<forall>c cs rest up.
      take 1 (snd (search up (JObj ((''searchTerm'', JStr (c # cs)) # rest)))) =
        [Search (pre @ (c # cs) @ post)])"
proof (intro conjI)
  show "\<exists>pre post. \<forall>categoryName up.
      snd (knowledge_articles up (JStr categoryName)) = [Query (pre @ categoryName @ post)]"
    apply (intro exI allI)
    apply (subst articles_calls)
    apply (simp only: ToString.simps)
    apply (subst articles_query_template)
    apply (rule refl)
    done
  show "\<exists>pre post. \<forall>email t ts up.
      snd (cases_by_email_first \<lparr>accessToken = JStr (t # ts)\<rparr> up (JStr email)) =
        [Query (pre @ email @ post)]"
    apply (intro exI allI)
    apply (subst cases_first_calls)
     apply simp
    apply (simp only: ToString.simps)
    apply (subst cases_soql_first_template)
    apply (rule refl)
    done
  show "\<exists>pre post. \<forall>c cs conn up.
      snd (cases_by_email_second conn up (JStr (c # cs))) = [Query (pre @ (c # cs) @ post)]"
    apply (intro exI allI)
    apply (subst cases_second_calls)
     apply simp
    apply (simp only: ToString.simps)
    apply (subst cases_soql_second_template)
    apply (rule refl)
    done
  show "\<exists>pre post. \<forall>c cs rest up.
      take 1 (snd (search up (JObj ((''searchTerm'', JStr (c # cs)) # rest)))) =
        [Search (pre @ (c # cs) @ post)]"
    apply (intro exI allI)
    apply (subst search_first_call)
     apply (simp add: obj_field_def)
    apply (simp only: obj_field_def map_of.simps fst_conv snd_conv if_True fun_upd_same
        option.case ToString.simps)
    apply (subst sosl_query_template)
    apply (rule refl)
    done
qed

section \<open>Replying to a case\<close>

text \<open>
  Claim C10. For every case id and every non-empty \<^verbatim>\<open>commentBody\<close>, POST
  /cases/:caseId/reply makes exactly one upstream call, the creation of a CaseComment
  whose \<^verbatim>\<open>ParentId\<close> is the case id and whose \<^verbatim>\<open>CommentBody\<close> is the comment body,
  whatever the \<^verbatim>\<open>isPublic\<close> field holds; \<^verbatim>\<open>IsPublished\<close> is \<^verbatim>\<open>isPublic\<close> itself when
  that is truthy and \<^verbatim>\<open>false\<close> otherwise, so it is \<^verbatim>\<open>false\<close> when the body has no
  \<^verbatim>\<open>isPublic\<close> field and \<^verbatim>\<open>true\<close> when \<^verbatim>\<open>isPublic\<close> is \<^verbatim>\<open>true\<close>; and when the creation
  succeeds the response is 201 with the record the CRM returned.
\<close>

theorem case_reply_creates_comment:
  assumes "obj_field kvs ''commentBody'' = JStr commentBody" and "commentBody \<noteq> []"
  shows "snd (case_reply up caseId (JObj kvs)) =
           [Create ''CaseComment''
              (JObj [(''ParentId'', caseId), (''CommentBody'', JStr commentBody),
                     (''IsPublished'',
                      if truthy (obj_field kvs ''isPublic'') then obj_field kvs ''isPublic''
                      else JBool False)])]
         \<and> (obj_field kvs ''isPublic'' = JUndefined \<longrightarrow>
            snd (case_reply up caseId (JObj kvs)) =
              [Create ''CaseComment''
                 (JObj [(''ParentId'', caseId), (''CommentBody'', JStr commentBody),
                        (''IsPublished'', JBool False)])])
         \<and> (obj_field kvs ''isPublic'' = JBool True \<longrightarrow>
            snd (case_reply up caseId (JObj kvs)) =
              [Create ''CaseComment''
                 (JObj [(''ParentId'', caseId), (''CommentBody'', JStr commentBody),
                        (''IsPublished'', JBool True)])])
         \<and> (\<forall>created.
              sobject_create up ''CaseComment''
                (JObj [(''ParentId'', caseId), (''CommentBody'', JStr commentBody),
                       (''IsPublished'',
                        if truthy (obj_field kvs ''isPublic'') then obj_field kvs ''isPublic''
                        else JBool False)]) = Inr created \<longrightarrow>
              fst (case_reply up caseId (JObj kvs)) = Responded 201 (Json created))"
proof -
  let ?pub = "if truthy (obj_field kvs ''isPublic'') then obj_field kvs ''isPublic''
              else JBool False"
  let ?comment = "JObj [(''ParentId'', caseId), (''CommentBody'', JStr commentBody),
                       (''IsPublished'', ?pub)]"
  have built: "case_comment caseId (JStr commentBody) (obj_field kvs ''isPublic'') = ?comment"
    by (simp add: case_comment_def js_or_def)
  have calls: "snd (case_reply up caseId (JObj kvs)) = [Create ''CaseComment'' ?comment]"
    using assms built by (simp add: case_reply_def Let_def split: sum.splits)
  have absent: "obj_field kvs ''isPublic'' = JUndefined \<longrightarrow>
      snd (case_reply up caseId (JObj kvs)) =
        [Create ''CaseComment''
           (JObj [(''ParentId'', caseId), (''CommentBody'', JStr commentBody),
                  (''IsPublished'', JBool False)])]"
    using calls by simp
  have public: "obj_field kvs ''isPublic'' = JBool True \<longrightarrow>
      snd (case_reply up caseId (JObj kvs)) =
        [Create ''CaseComment''
           (JObj [(''ParentId'', caseId), (''CommentBody'', JStr commentBody),
                  (''IsPublished'', JBool True)])]"
    using calls by simp
  have created: "\<forall>created. sobject_create up ''CaseComment'' ?comment = Inr created \<longrightarrow>
      fst (case_reply up caseId (JObj kvs)) = Responded 201 (Json created)"
    using assms built by (simp add: case_reply_def Let_def)
  from calls absent public created show ?thesis by blast
qed

text \<open>Witness for C10: the reply \<^verbatim>\<open>thanks\<close> to case \<^verbatim>\<open>5003\<close>, without \<^verbatim>\<open>isPublic\<close>,
  with \<^verbatim>\<open>isPublic: true\<close> and with \<^verbatim>\<open>isPublic: false\<close>, against a CRM that
  creates the comment.\<close>

theorem case_reply_creates_comment_witness:
  "case_reply upstream_empty (JStr ''5003'') (JObj [(''commentBody'', JStr ''thanks'')]) =
     (Responded 201 (Json (JObj [(''id'', JStr ''00a1''), (''success'', JBool True)])),
      [Create ''CaseComment''
         (JObj [(''ParentId'', JStr ''5003''), (''CommentBody'', JStr ''thanks''),
                (''IsPublished'', JBool False)])])
   \<and> case_reply upstream_empty (JStr ''5003'')
        (JObj [(''commentBody'', JStr ''thanks''), (''isPublic'', JBool True)]) =
     (Responded 201 (Json (JObj [(''id'', JStr ''00a1''), (''success'', JBool True)])),
      [Create ''CaseComment''
         (JObj [(''ParentId'', JStr ''5003''), (''CommentBody'', JStr ''thanks''),
                (''IsPublished'', JBool True)])])
   \<and> case_reply upstream_empty (JStr ''5003'')
        (JObj [(''commentBody'', JStr ''thanks''), (''isPublic'', JBool False)]) =
     (Responded 201 (Json (JObj [(''id'', JStr ''00a1''), (''success'', JBool True)])),
      [Create ''CaseComment''
         (JObj [(''ParentId'', JStr ''5003''), (''CommentBody'', JStr ''thanks''),
                (''IsPublished'', JBool False)])])"
proof -
  have a: "obj_field [(''commentBody'', JStr ''thanks'')] ''commentBody'' = JStr ''thanks''"
    and b: "obj_field [(''commentBody'', JStr ''thanks'')] ''isPublic'' = JUndefined"
    and c: "obj_field [(''commentBody'', JStr ''thanks''), (''isPublic'', JBool True)]
              ''commentBody'' = JStr ''thanks''"
    and d: "obj_field [(''commentBody'', JStr ''thanks''), (''isPublic'', JBool True)]
              ''isPublic'' = JBool True"
    and c': "obj_field [(''commentBody'', JStr ''thanks''), (''isPublic'', JBool False)]
              ''commentBody'' = JStr ''thanks''"
    and d': "obj_field [(''commentBody'', JStr ''thanks''), (''isPublic'', JBool False)]
              ''isPublic'' = JBool False"
    and e: "''thanks'' \<noteq> []"
    and f: "\<And>r. sobject_create upstream_empty ''CaseComment'' r =
              Inr (JObj [(''id'', JStr ''00a1''), (''success'', JBool True)])"
    by (simp_all add: obj_field_def upstream_empty_def)
  show ?thesis
    using case_reply_creates_comment[OF a e, of upstream_empty "JStr ''5003''"]
          case_reply_creates_comment[OF c e, of upstream_empty "JStr ''5003''"]
          case_reply_creates_comment[OF c' e, of upstream_empty "JStr ''5003''"] b d d' f
    by (simp add: prod_eq_iff)
qed

end
